theory Spec2Isabelle
  imports Main "HOL-Library.Word"
begin

section \<open>Data model (pkg/aws/types.go)\<close>

text \<open>
  Go's \<^verbatim>\<open>error\<close> interface. \<^verbatim>\<open>errors.New\<close> and \<^verbatim>\<open>fmt.Errorf\<close> without
  \<^verbatim>\<open>%w\<close> build a plain message; \<^verbatim>\<open>fmt.Errorf\<close> with \<^verbatim>\<open>%w\<close> keeps the wrapped error
  next to the formatted message. A nil error is \<open>None\<close> of \<open>error option\<close>.
\<close>

datatype error = errorString string | wrapError string error

fun Error :: "error \<Rightarrow> string" where
  "Error (errorString m) = m"
| "Error (wrapError m e) = m"

definition Errorf_w :: "string \<Rightarrow> error \<Rightarrow> error" where
  \<comment> \<open>\<^verbatim>\<open>fmt.Errorf(prefix + "%w", err)\<close>\<close>
  "Errorf_w prefix err = wrapError (prefix @ Error err) err"

type_synonym int32 = "32 word"

record Identity =
  Arn :: string

record Credentials =
  AccessKeyID :: string
  SecretAccessKey :: string
  SessionToken :: string

text \<open>
  The collaborators are interfaces and function values. Each one is modelled by a function
  on a world \<open>'w\<close> (everything outside the program: the identity provider, the login
  mechanism, the network, the operating system), which it may read and change. A Go result
  \<^verbatim>\<open>(T, error)\<close> is the pair of both values, as Go returns them. The context argument
  carries no data in this program and is left out.
\<close>

record 'w Service =
  GetCallerIdentity :: "string \<Rightarrow> 'w \<Rightarrow> (Identity \<times> error option) \<times> 'w"
  RetrieveCredentials :: "string \<Rightarrow> 'w \<Rightarrow> (Credentials \<times> error option) \<times> 'w"
  GetSessionToken :: "string \<Rightarrow> int32 \<Rightarrow> 'w \<Rightarrow> (Credentials \<times> error option) \<times> 'w"

type_synonym 'w FederationURLBuilder =
  "Credentials \<Rightarrow> int32 \<Rightarrow> 'w \<Rightarrow> (string \<times> error option) \<times> 'w"

section \<open>The command (cmd/root.go)\<close>

definition sessionDuration_const :: int32 where
  "sessionDuration_const = 43200"

text \<open>
  The executor runs external commands. The streams \<open>'h\<close> are the handles held in the
  dependencies (\<^verbatim>\<open>io.Reader\<close>, \<^verbatim>\<open>io.Writer\<close>).
\<close>

record ('w, 'h) Executor =
  Run :: "string \<Rightarrow> string list \<Rightarrow> 'h \<Rightarrow> 'h \<Rightarrow> 'h \<Rightarrow> 'w \<Rightarrow> error option \<times> 'w"
  Start :: "string \<Rightarrow> string list \<Rightarrow> 'w \<Rightarrow> error option \<times> 'w"

record ('w, 'h) runDeps =
  awsService :: "'w Service"
  federation :: "'w FederationURLBuilder"
  login :: "string \<Rightarrow> 'w \<Rightarrow> error option \<times> 'w"
  openURL :: "string \<Rightarrow> 'w \<Rightarrow> error option \<times> 'w"
  executor :: "('w, 'h) Executor"
  goos :: string
  stdin :: 'h
  stdout :: 'h
  stderr :: 'h
  sessionDuration :: int32

text \<open>
  What the program does to its collaborators is recorded in a trace: one event for each
  collaborator call, with its arguments and what it returned, and one for each write to a
  stream. The program only ever appends to the trace.
\<close>

datatype 'h event =
    GetCallerIdentityCall string "Identity \<times> error option"
  | LoginCall string "error option"
  | RetrieveCredentialsCall string "Credentials \<times> error option"
  | GetSessionTokenCall string int32 "Credentials \<times> error option"
  | BuildConsoleURLCall Credentials int32 "string \<times> error option"
  | OpenCall string "error option"
  | WriteCall 'h string
  | RunCall string "string list" 'h 'h 'h "error option"
  | StartCall string "string list" "error option"

record ('w, 'h) state =
  world :: 'w
  trace :: "'h event list"

definition invoke ::
  "('r \<Rightarrow> 'h event) \<Rightarrow> ('w \<Rightarrow> 'r \<times> 'w) \<Rightarrow> ('w, 'h) state \<Rightarrow> 'r \<times> ('w, 'h) state" where
  \<comment> \<open>call a collaborator on the world and record the call with its result\<close>
  "invoke ev f s =
     (case f (world s) of (r, w') \<Rightarrow> (r, \<lparr>world = w', trace = trace s @ [ev r]\<rparr>))"

definition Fprint :: "'h \<Rightarrow> string \<Rightarrow> ('w, 'h) state \<Rightarrow> ('w, 'h) state" where
  \<comment> \<open>a single write of the formatted text; the source discards what the write returns\<close>
  "Fprint h msg s = s\<lparr>trace := trace s @ [WriteCall h msg]\<rparr>"

definition Fprintln :: "'h \<Rightarrow> string \<Rightarrow> ('w, 'h) state \<Rightarrow> ('w, 'h) state" where
  "Fprintln h msg s = Fprint h (msg @ [CHR 0x0A]) s"

text \<open>\<^verbatim>\<open>ssoLogin\<close> shells out to the AWS CLI to perform an SSO login.\<close>

definition ssoLogin ::
  "string \<Rightarrow> ('w, 'h) runDeps \<Rightarrow> ('w, 'h) state \<Rightarrow> error option \<times> ('w, 'h) state" where
  "ssoLogin profile deps s =
     (let args = [''sso'', ''login''];
          args = (if profile \<noteq> '''' then args @ [''--profile'', profile] else args)
      in invoke (RunCall ''aws'' args (stdin deps) (stdout deps) (stderr deps))
           (Run (executor deps) ''aws'' args (stdin deps) (stdout deps) (stderr deps)) s)"

text \<open>\<^verbatim>\<open>openBrowser\<close> opens the given URL in the user's default browser.\<close>

definition openBrowser ::
  "string \<Rightarrow> ('w, 'h) runDeps \<Rightarrow> ('w, 'h) state \<Rightarrow> error option \<times> ('w, 'h) state" where
  "openBrowser targetURL deps s =
     (case (if goos deps = ''darwin'' then Some (''open'', [])
            else if goos deps = ''linux'' then Some (''xdg-open'', [])
            else if goos deps = ''windows'' then Some (''rundll32'', [''url.dll,FileProtocolHandler''])
            else None) of
        None \<Rightarrow> (Some (errorString (''unsupported platform: '' @ goos deps)), s)
      | Some (command, args) \<Rightarrow>
          (let args = args @ [targetURL]
           in invoke (StartCall command args) (Start (executor deps) command args) s))"

text \<open>
  \<^verbatim>\<open>runWorkflow\<close>, lines 122 to 145: what runs once an identity is in hand. The source
  reaches this point from two places (the first identity check succeeded, or the one after
  the login did), so the model names it.
\<close>

definition runWorkflow_authenticated ::
  "string \<Rightarrow> ('w, 'h) runDeps \<Rightarrow> Identity \<Rightarrow> ('w, 'h) state \<Rightarrow> error option \<times> ('w, 'h) state" where
  "runWorkflow_authenticated profile deps identity s0 =
     (let s1 = Fprint (stdout deps) (''Authenticated as: '' @ Arn identity @ [CHR 0x0A]) s0
      in case invoke (RetrieveCredentialsCall profile)
                (RetrieveCredentials (awsService deps) profile) s1 of
        ((creds, Some err), s2) \<Rightarrow> (Some (Errorf_w ''failed to retrieve credentials: '' err), s2)
      | ((creds, None), s2) \<Rightarrow>
         (case (if SessionToken creds = '''' then
                  (case invoke (GetSessionTokenCall profile (sessionDuration deps))
                          (GetSessionToken (awsService deps) profile (sessionDuration deps))
                          (Fprintln (stdout deps)
                             ''No session token found, requesting temporary credentials...'' s2) of
                     ((creds', Some err), s3) \<Rightarrow>
                        (Inl (Errorf_w ''failed to get temporary credentials: '' err), s3)
                   | ((creds', None), s3) \<Rightarrow> (Inr creds', s3))
                else (Inr creds, s2)) of
            (Inl e, s4) \<Rightarrow> (Some e, s4)
          | (Inr creds, s4) \<Rightarrow>
             (case invoke (BuildConsoleURLCall creds (sessionDuration deps))
                     (federation deps creds (sessionDuration deps)) s4 of
                ((loginURL, Some err), s5) \<Rightarrow>
                   (Some (Errorf_w ''failed to build console URL: '' err), s5)
              | ((loginURL, None), s5) \<Rightarrow>
                   invoke (OpenCall loginURL) (openURL deps loginURL)
                     (Fprintln (stdout deps) ''Opening AWS Console in your browser...'' s5))))"

definition runWorkflow ::
  "string \<Rightarrow> ('w, 'h) runDeps \<Rightarrow> ('w, 'h) state \<Rightarrow> error option \<times> ('w, 'h) state" where
  "runWorkflow profile deps s0 =
     (case invoke (GetCallerIdentityCall profile)
             (GetCallerIdentity (awsService deps) profile) s0 of
        ((identity, None), s1) \<Rightarrow> runWorkflow_authenticated profile deps identity s1
      | ((identity, Some err), s1) \<Rightarrow>
         (case invoke (LoginCall profile) (login deps profile)
                 (Fprintln (stderr deps)
                    ''Credentials are not valid, attempting SSO login...'' s1) of
            (Some loginErr, s2) \<Rightarrow> (Some (Errorf_w ''SSO login failed: '' loginErr), s2)
          | (None, s2) \<Rightarrow>
             (case invoke (GetCallerIdentityCall profile)
                     (GetCallerIdentity (awsService deps) profile) s2 of
                ((identity, Some err), s3) \<Rightarrow>
                   (Some (Errorf_w ''credentials still invalid after SSO login: '' err), s3)
              | ((identity, None), s3) \<Rightarrow>
                   runWorkflow_authenticated profile deps identity s3)))"

section \<open>The federation client (pkg/aws/federation.go)\<close>

text \<open>
  Functions of Go's standard library that \<^verbatim>\<open>BuildConsoleURL\<close> calls.
  \<^verbatim>\<open>url.QueryEscape\<close> and the decimal verb \<^verbatim>\<open>%d\<close> are written out; the JSON
  encoder, the JSON decoder and the request constructor are parameters of the model
  (record \<open>stdlib\<close>), so every theorem holds for whatever they compute.
\<close>

definition shouldEscape :: "char \<Rightarrow> bool" where
  \<comment> \<open>\<^verbatim>\<open>net/url\<close>, query component mode: letters, digits and \<^verbatim>\<open>-_.~\<close> are kept\<close>
  "shouldEscape c =
     (let n = (of_char c :: nat) in
      if (97 \<le> n \<and> n \<le> 122) \<or> (65 \<le> n \<and> n \<le> 90) \<or> (48 \<le> n \<and> n \<le> 57) then False
      else if c \<in> set ''-_.~'' then False
      else True)"

definition upperhex :: string where
  "upperhex = ''0123456789ABCDEF''"

fun QueryEscape :: "string \<Rightarrow> string" where
  "QueryEscape [] = []"
| "QueryEscape (c # s) =
     (if c = CHR '' '' then CHR ''+'' # QueryEscape s
      else if shouldEscape c then
        CHR ''%'' # upperhex ! (of_char c div 16) # upperhex ! (of_char c mod 16) # QueryEscape s
      else c # QueryEscape s)"

fun digits :: "nat \<Rightarrow> string" where
  "digits n =
     (if n < 10 then [''0123456789'' ! n]
      else digits (n div 10) @ [''0123456789'' ! (n mod 10)])"

declare digits.simps [simp del]

definition Itoa :: "int \<Rightarrow> string" where
  \<comment> \<open>the verb \<^verbatim>\<open>%d\<close>\<close>
  "Itoa i = (if i < 0 then CHR ''-'' # digits (nat (- i)) else digits (nat i))"

record Request =
  Method :: string
  URL :: string

text \<open>
  An HTTP response: the status code, and what \<^verbatim>\<open>io.ReadAll\<close> gives for its body
  (the bytes read and the error, if reading failed).
\<close>

record Response =
  StatusCode :: int
  Body :: "string \<times> error option"

record stdlib =
  json_Marshal :: "(string \<rightharpoonup> string) \<Rightarrow> string \<times> error option"
  http_NewRequestWithContext :: "string \<Rightarrow> string \<Rightarrow> error + Request"
  json_Unmarshal :: "string \<Rightarrow> string \<times> error option"

text \<open>
  \<^verbatim>\<open>json_Unmarshal\<close> decodes into \<^verbatim>\<open>struct { SigninToken string }\<close> starting from
  the zero value and gives the field afterwards, with the decoder's error. The client's
  \<^verbatim>\<open>Do\<close> gives a response or an error.
\<close>

record 'w FederationClient =
  client :: "Request \<Rightarrow> 'w \<Rightarrow> (error + Response) \<times> 'w"
  federationURL :: string
  consoleURL :: string

definition defaultFederationURL :: string where
  "defaultFederationURL = ''https://signin.aws.amazon.com/federation''"

definition defaultConsoleURL :: string where
  "defaultConsoleURL = ''https://console.aws.amazon.com/''"

definition sessionData :: "Credentials \<Rightarrow> (string \<rightharpoonup> string)" where
  "sessionData creds =
     [''sessionId'' \<mapsto> AccessKeyID creds,
      ''sessionKey'' \<mapsto> SecretAccessKey creds,
      ''sessionToken'' \<mapsto> SessionToken creds]"

definition tokenURL :: "'w FederationClient \<Rightarrow> int32 \<Rightarrow> string \<Rightarrow> string" where
  "tokenURL f durationSeconds sessionJSON =
     federationURL f @ ''?Action=getSigninToken&SessionDuration='' @ Itoa (sint durationSeconds)
       @ ''&Session='' @ QueryEscape sessionJSON"

definition loginURL :: "'w FederationClient \<Rightarrow> string \<Rightarrow> string" where
  "loginURL f signinToken =
     federationURL f @ ''?Action=login&Issuer=aws-console-cli&Destination=''
       @ QueryEscape (consoleURL f) @ ''&SigninToken='' @ QueryEscape signinToken"

definition BuildConsoleURL ::
  "stdlib \<Rightarrow> 'w FederationClient \<Rightarrow> Credentials \<Rightarrow> int32 \<Rightarrow> 'w \<Rightarrow> (string \<times> error option) \<times> 'w" where
  "BuildConsoleURL lib f creds durationSeconds w =
     (case json_Marshal lib (sessionData creds) of
        (sessionJSON, Some err) \<Rightarrow>
          (('''', Some (Errorf_w ''failed to marshal session: '' err)), w)
      | (sessionJSON, None) \<Rightarrow>
         (case http_NewRequestWithContext lib ''GET'' (tokenURL f durationSeconds sessionJSON) of
            Inl err \<Rightarrow> (('''', Some (Errorf_w ''failed to build federation request: '' err)), w)
          | Inr req \<Rightarrow>
             (case client f req w of
                (Inl err, w') \<Rightarrow>
                  (('''', Some (Errorf_w ''failed to request signin token: '' err)), w')
              | (Inr resp, w') \<Rightarrow>
                 (case Body resp of
                    (body, Some err) \<Rightarrow>
                      (('''', Some (Errorf_w ''failed to read federation response: '' err)), w')
                  | (body, None) \<Rightarrow>
                     if StatusCode resp \<noteq> 200 then
                       (('''', Some (errorString (''federation endpoint returned HTTP ''
                                @ Itoa (StatusCode resp) @ '': '' @ body))), w')
                     else
                       (case json_Unmarshal lib body of
                          (signinToken, Some err) \<Rightarrow>
                            (('''', Some (Errorf_w ''failed to parse signin token response: '' err)), w')
                        | (signinToken, None) \<Rightarrow>
                           if signinToken = '''' then
                             (('''', Some (errorString
                                 ''received empty signin token from federation endpoint'')), w')
                           else ((loginURL f signinToken, None), w'))))))"

section \<open>Test doubles (cmd/root_test.go, pkg/aws/mocks)\<close>

text \<open>
  The doubles of the test suite, used to run the model on concrete inputs. Their world is a
  counter: the mock service counts the identity calls it has received (so that a first call
  can fail and a second one succeed, as in the SSO fallback test), the fake executor counts
  the commands it was given.
\<close>

definition fakeExecutor :: "error option \<Rightarrow> error option \<Rightarrow> (nat, string) Executor" where
  "fakeExecutor runErr startErr =
     \<lparr>Run = (\<lambda>name args i out err n. (runErr, Suc n)),
      Start = (\<lambda>name args n. (startErr, Suc n))\<rparr>"

definition mockService ::
  "(nat \<Rightarrow> Identity \<times> error option) \<Rightarrow> Credentials \<times> error option \<Rightarrow>
   Credentials \<times> error option \<Rightarrow> nat Service" where
  "mockService identityResults credsResult tokenResult =
     \<lparr>GetCallerIdentity = (\<lambda>profile n. (identityResults n, Suc n)),
      RetrieveCredentials = (\<lambda>profile n. (credsResult, n)),
      GetSessionToken = (\<lambda>profile durationSeconds n. (tokenResult, n))\<rparr>"

definition testDeps ::
  "nat Service \<Rightarrow> string \<times> error option \<Rightarrow> error option \<Rightarrow> error option \<Rightarrow>
   (nat, string) runDeps" where
  "testDeps svc urlResult loginErr openErr =
     \<lparr>awsService = svc,
      federation = (\<lambda>creds durationSeconds n. (urlResult, n)),
      login = (\<lambda>profile n. (loginErr, n)),
      openURL = (\<lambda>targetURL n. (openErr, n)),
      executor = fakeExecutor None None,
      goos = ''linux'',
      stdin = ''stdin'', stdout = ''stdout'', stderr = ''stderr'',
      sessionDuration = sessionDuration_const\<rparr>"

definition noCredentials :: Credentials where
  \<comment> \<open>the zero value \<^verbatim>\<open>Credentials{}\<close>\<close>
  "noCredentials = \<lparr>AccessKeyID = '''', SecretAccessKey = '''', SessionToken = ''''\<rparr>"

definition execDeps :: "string \<Rightarrow> error option \<Rightarrow> error option \<Rightarrow> (nat, string) runDeps" where
  \<comment> \<open>the dependencies of the executor tests: only the executor and the platform matter\<close>
  "execDeps os runErr startErr =
     (testDeps (mockService (\<lambda>n. (\<lparr>Arn = ''''\<rparr>, None)) (noCredentials, None) (noCredentials, None))
        ('''', None) None None)
       \<lparr>executor := fakeExecutor runErr startErr, goos := os\<rparr>"

definition testLib :: stdlib where
  \<comment> \<open>stands in for the standard library on the values of the federation tests\<close>
  \<open>testLib =
     \<lparr>json_Marshal = (\<lambda>m.
        case (m ''sessionId'', m ''sessionKey'', m ''sessionToken'') of
          (Some a, Some b, Some c) \<Rightarrow>
            (''{"sessionId":"'' @ a @ ''","sessionKey":"'' @ b @ ''","sessionToken":"'' @ c @ ''"}'',
             None)
        | _ \<Rightarrow> ('''', Some (errorString ''json: unsupported value''))),
      http_NewRequestWithContext = (\<lambda>method url. Inr \<lparr>Method = method, URL = url\<rparr>),
      json_Unmarshal = (\<lambda>body.
        if body = ''{"SigninToken":"token-123"}'' then (''token-123'', None)
        else if body = ''{"SigninToken":""}'' then ('''', None)
        else ('''', Some (errorString ''invalid character'')))\<rparr>\<close>

definition testFederationClient :: "int \<Rightarrow> string \<Rightarrow> nat FederationClient" where
  \<comment> \<open>a client whose server answers every request with the given status and body\<close>
  "testFederationClient statusCode responseBody =
     \<lparr>client = (\<lambda>req n. (Inr \<lparr>StatusCode = statusCode, Body = (responseBody, None)\<rparr>, Suc n)),
      federationURL = defaultFederationURL,
      consoleURL = defaultConsoleURL\<rparr>"

definition testCredentials :: Credentials where
  "testCredentials =
     \<lparr>AccessKeyID = ''AKIA_TEST'', SecretAccessKey = ''secret'', SessionToken = ''token''\<rparr>"

definition testIdentity :: Identity where
  "testIdentity = \<lparr>Arn = ''arn:aws:iam::123456789012:user/test''\<rparr>"

definition longLivedCredentials :: Credentials where
  "longLivedCredentials =
     \<lparr>AccessKeyID = ''AKIA_LONG'', SecretAccessKey = ''long-secret'', SessionToken = ''''\<rparr>"







definition tokenErrorDeps :: "(nat, string) runDeps" where
  \<comment> \<open>test "returns error when session token request fails"\<close>
  "tokenErrorDeps =
     testDeps (mockService (\<lambda>n. (testIdentity, None)) (longLivedCredentials, None)
                 (noCredentials, Some (errorString ''token request failed'')))
       ('''', Some (errorString ''unexpected BuildConsoleURL call'')) None None"

definition initial :: "(nat, string) state" where
  "initial = \<lparr>world = 0, trace = []\<rparr>"

definition failingFederationClient :: "nat FederationClient" where
  \<comment> \<open>the client of the network error test\<close>
  "failingFederationClient =
     \<lparr>client = (\<lambda>req n. (Inl (errorString ''network error''), Suc n)),
      federationURL = defaultFederationURL,
      consoleURL = defaultConsoleURL\<rparr>"

definition testSessionJSON :: string where
  \<open>testSessionJSON = ''{"sessionId":"AKIA_TEST","sessionKey":"secret","sessionToken":"token"}''\<close>

section \<open>Reading the trace\<close>






section \<open>The executor commands\<close>

text \<open>
  Claim C6. The browser launcher chooses its command from the platform identifier alone:
  \<^verbatim>\<open>open\<close> on darwin, \<^verbatim>\<open>xdg-open\<close> on linux, \<^verbatim>\<open>rundll32\<close> with first argument
  \<^verbatim>\<open>url.dll,FileProtocolHandler\<close> on windows. In each case it starts exactly one command,
  whose last argument is the target URL, and returns what starting it returned.
\<close>

theorem openBrowser_command:
  "(goos deps = ''darwin'' \<longrightarrow>
      (case Start (executor deps) ''open'' [targetURL] (world s) of (r, w') \<Rightarrow>
         openBrowser targetURL deps s =
           (r, \<lparr>world = w', trace = trace s @ [StartCall ''open'' [targetURL] r]\<rparr>))) \<and>
   (goos deps = ''linux'' \<longrightarrow>
      (case Start (executor deps) ''xdg-open'' [targetURL] (world s) of (r, w') \<Rightarrow>
         openBrowser targetURL deps s =
           (r, \<lparr>world = w', trace = trace s @ [StartCall ''xdg-open'' [targetURL] r]\<rparr>))) \<and>
   (goos deps = ''windows'' \<longrightarrow>
      (case Start (executor deps) ''rundll32'' [''url.dll,FileProtocolHandler'', targetURL] (world s) of
         (r, w') \<Rightarrow>
         openBrowser targetURL deps s =
           (r, \<lparr>world = w',
                trace = trace s @
                  [StartCall ''rundll32'' [''url.dll,FileProtocolHandler'', targetURL] r]\<rparr>)))"
  by (simp add: openBrowser_def invoke_def split: prod.splits)

theorem openBrowser_command_witness:
  "openBrowser ''https://example.com'' (execDeps ''darwin'' None None) \<lparr>world = 0, trace = []\<rparr> =
     (None, \<lparr>world = 1, trace = [StartCall ''open'' [''https://example.com''] None]\<rparr>) \<and>
   openBrowser ''https://example.com'' (execDeps ''linux'' None (Some (errorString ''start failed'')))
       \<lparr>world = 0, trace = []\<rparr> =
     (Some (errorString ''start failed''),
      \<lparr>world = 1, trace = [StartCall ''xdg-open'' [''https://example.com''] (Some (errorString ''start failed''))]\<rparr>) \<and>
   openBrowser ''https://example.com'' (execDeps ''windows'' None None) \<lparr>world = 0, trace = []\<rparr> =
     (None, \<lparr>world = 1,
        trace = [StartCall ''rundll32'' [''url.dll,FileProtocolHandler'', ''https://example.com''] None]\<rparr>)"
  using openBrowser_command [of "execDeps ''darwin'' None None" "''https://example.com''" "\<lparr>world = 0, trace = []\<rparr>"]
    openBrowser_command [of "execDeps ''linux'' None (Some (errorString ''start failed''))" "''https://example.com''" "\<lparr>world = 0, trace = []\<rparr>"]
    openBrowser_command [of "execDeps ''windows'' None None" "''https://example.com''" "\<lparr>world = 0, trace = []\<rparr>"]
  by (simp add: execDeps_def testDeps_def fakeExecutor_def)

text \<open>
  Claim C8. On every platform identifier other than darwin, linux and windows the browser
  launcher returns the error \<^verbatim>\<open>unsupported platform: ...\<close> and leaves the world and the
  trace as they were: no command is started.
\<close>

theorem openBrowser_unsupported:
  "goos deps \<notin> {''darwin'', ''linux'', ''windows''} \<Longrightarrow>
   openBrowser targetURL deps s = (Some (errorString (''unsupported platform: '' @ goos deps)), s)"
  by (simp add: openBrowser_def)

theorem openBrowser_unsupported_witness:
  "''plan9'' \<notin> {''darwin'', ''linux'', ''windows''} \<and>
   openBrowser ''https://example.com'' (execDeps ''plan9'' None None) \<lparr>world = 0, trace = []\<rparr> =
     (Some (errorString ''unsupported platform: plan9''), \<lparr>world = 0, trace = []\<rparr>)"
  using openBrowser_unsupported [of "execDeps ''plan9'' None None" "''https://example.com''" "\<lparr>world = 0, trace = []\<rparr>"]
  by (simp add: execDeps_def testDeps_def)

text \<open>
  Claim C10. The SSO login runs the command \<^verbatim>\<open>aws\<close> exactly once. Its arguments are
  \<^verbatim>\<open>sso login\<close> for the empty profile and \<^verbatim>\<open>sso login --profile p\<close> for a profile
  \<^verbatim>\<open>p\<close> that is not empty; the result is what the command returned.
\<close>

theorem ssoLogin_command:
  "(profile = '''' \<longrightarrow>
      (case Run (executor deps) ''aws'' [''sso'', ''login'']
              (stdin deps) (stdout deps) (stderr deps) (world s) of (r, w') \<Rightarrow>
         ssoLogin profile deps s =
           (r, \<lparr>world = w',
                trace = trace s @
                  [RunCall ''aws'' [''sso'', ''login''] (stdin deps) (stdout deps) (stderr deps) r]\<rparr>))) \<and>
   (profile \<noteq> '''' \<longrightarrow>
      (case Run (executor deps) ''aws'' [''sso'', ''login'', ''--profile'', profile]
              (stdin deps) (stdout deps) (stderr deps) (world s) of (r, w') \<Rightarrow>
         ssoLogin profile deps s =
           (r, \<lparr>world = w',
                trace = trace s @
                  [RunCall ''aws'' [''sso'', ''login'', ''--profile'', profile]
                     (stdin deps) (stdout deps) (stderr deps) r]\<rparr>)))"
  by (simp add: ssoLogin_def invoke_def split: prod.splits)

theorem ssoLogin_command_witness:
  "ssoLogin '''' (execDeps ''linux'' None None) \<lparr>world = 0, trace = []\<rparr> =
     (None, \<lparr>world = 1,
        trace = [RunCall ''aws'' [''sso'', ''login''] ''stdin'' ''stdout'' ''stderr'' None]\<rparr>) \<and>
   ssoLogin ''dev-profile'' (execDeps ''linux'' (Some (errorString ''exec failed'')) None)
       \<lparr>world = 0, trace = []\<rparr> =
     (Some (errorString ''exec failed''), \<lparr>world = 1,
        trace = [RunCall ''aws'' [''sso'', ''login'', ''--profile'', ''dev-profile'']
                   ''stdin'' ''stdout'' ''stderr'' (Some (errorString ''exec failed''))]\<rparr>)"
  using ssoLogin_command [of "''''" "execDeps ''linux'' None None" "\<lparr>world = 0, trace = []\<rparr>"]
    ssoLogin_command [of "''dev-profile''" "execDeps ''linux'' (Some (errorString ''exec failed'')) None"
      "\<lparr>world = 0, trace = []\<rparr>"]
  by (simp add: execDeps_def testDeps_def fakeExecutor_def)

section \<open>The federation client: results\<close>

lemma digits_lt10: "n < 10 \<Longrightarrow> digits n = [''0123456789'' ! n]"
  by (subst digits.simps) simp

lemma digits_ge10: "\<not> n < 10 \<Longrightarrow> digits n = digits (n div 10) @ [''0123456789'' ! (n mod 10)]"
  by (subst digits.simps) simp

text \<open>
  Claim C4. For every credential bundle and duration: when the federation endpoint answers
  the token request with status 200 and a body that decodes to a sign-in token which is not
  empty, \<^verbatim>\<open>BuildConsoleURL\<close> returns, with a nil error, the federation address followed
  by \<^verbatim>\<open>?Action=login&Issuer=aws-console-cli&Destination=\<close>, the query-escaped console
  address, \<^verbatim>\<open>&SigninToken=\<close> and the query-escaped token.
\<close>

theorem BuildConsoleURL_success:
  assumes "json_Marshal lib (sessionData creds) = (sessionJSON, None)"
    and "http_NewRequestWithContext lib ''GET'' (tokenURL f durationSeconds sessionJSON) = Inr req"
    and "client f req w = (Inr resp, w')"
    and "StatusCode resp = 200"
    and "Body resp = (body, None)"
    and "json_Unmarshal lib body = (signinToken, None)"
    and "signinToken \<noteq> ''''"
  shows "BuildConsoleURL lib f creds durationSeconds w =
     ((federationURL f @ ''?Action=login&Issuer=aws-console-cli&Destination=''
         @ QueryEscape (consoleURL f) @ ''&SigninToken='' @ QueryEscape signinToken, None), w')"
  using assms by (simp add: BuildConsoleURL_def loginURL_def)

lemma testLib_request:
  \<open>json_Marshal testLib (sessionData testCredentials) =
     (''{"sessionId":"AKIA_TEST","sessionKey":"secret","sessionToken":"token"}'', None)\<close>
  by (simp add: testLib_def sessionData_def testCredentials_def)

lemma test_tokenURL:
  \<open>tokenURL (testFederationClient 200 body) 3600
      ''{"sessionId":"AKIA_TEST","sessionKey":"secret","sessionToken":"token"}'' =
   ''https://signin.aws.amazon.com/federation?Action=getSigninToken&SessionDuration=3600&Session=%7B%22sessionId%22%3A%22AKIA_TEST%22%2C%22sessionKey%22%3A%22secret%22%2C%22sessionToken%22%3A%22token%22%7D''\<close>
  by (simp add: tokenURL_def testFederationClient_def defaultFederationURL_def Itoa_def
      digits_lt10 digits_ge10 shouldEscape_def upperhex_def)

theorem BuildConsoleURL_success_witness:
  \<open>BuildConsoleURL testLib (testFederationClient 200 ''{"SigninToken":"token-123"}'')
      testCredentials 3600 0 =
     ((''https://signin.aws.amazon.com/federation?Action=login&Issuer=aws-console-cli&Destination=https%3A%2F%2Fconsole.aws.amazon.com%2F&SigninToken=token-123'',
       None), 1)\<close>
proof -
  let ?f = \<open>testFederationClient 200 ''{"SigninToken":"token-123"}''\<close>
  let ?json = \<open>''{"sessionId":"AKIA_TEST","sessionKey":"secret","sessionToken":"token"}''\<close>
  let ?req = "\<lparr>Method = ''GET'', URL = tokenURL ?f 3600 ?json\<rparr>"
  let ?resp = \<open>\<lparr>StatusCode = 200, Body = (''{"SigninToken":"token-123"}'', None)\<rparr>\<close>
  have 1: "json_Marshal testLib (sessionData testCredentials) = (?json, None)"
    by (rule testLib_request)
  have 2: "http_NewRequestWithContext testLib ''GET'' (tokenURL ?f 3600 ?json) = Inr ?req"
    by (simp add: testLib_def)
  have 3: "client ?f ?req 0 = (Inr ?resp, 1)"
    by (simp add: testFederationClient_def)
  have 4: "StatusCode ?resp = 200" by simp
  have 5: \<open>Body ?resp = (''{"SigninToken":"token-123"}'', None)\<close> by simp
  have 6: \<open>json_Unmarshal testLib ''{"SigninToken":"token-123"}'' = (''token-123'', None)\<close>
    by (simp add: testLib_def)
  have 7: "''token-123'' \<noteq> ''''" by simp
  show ?thesis
    using BuildConsoleURL_success [OF 1 2 3 4 5 6 7]
    by (simp add: testFederationClient_def defaultFederationURL_def defaultConsoleURL_def
        shouldEscape_def upperhex_def)
qed

text \<open>
  Claim C9. When the endpoint has answered, \<^verbatim>\<open>BuildConsoleURL\<close> returns the empty string
  with an error if the status is not 200, if the body does not decode, or if the decoded
  sign-in token is empty. It returns a nil error only when the endpoint answered with
  status 200 and a body that decodes to a token which is not empty, and then the result is
  the login URL; and every error it returns comes with the empty string.
\<close>

theorem BuildConsoleURL_failure:
  "(\<forall>sessionJSON req resp w1.
      json_Marshal lib (sessionData creds) = (sessionJSON, None) \<and>
      http_NewRequestWithContext lib ''GET'' (tokenURL f durationSeconds sessionJSON) = Inr req \<and>
      client f req w = (Inr resp, w1) \<and>
      (StatusCode resp \<noteq> 200 \<or>
       (\<exists>body. Body resp = (body, None) \<and> snd (json_Unmarshal lib body) \<noteq> None) \<or>
       (\<exists>body. Body resp = (body, None) \<and> fst (json_Unmarshal lib body) = ''''))
      \<longrightarrow> (\<exists>e. BuildConsoleURL lib f creds durationSeconds w = (('''', Some e), w1))) \<and>
   (\<forall>u w1. BuildConsoleURL lib f creds durationSeconds w = ((u, None), w1) \<longrightarrow>
      (\<exists>sessionJSON req resp body signinToken.
         json_Marshal lib (sessionData creds) = (sessionJSON, None) \<and>
         http_NewRequestWithContext lib ''GET'' (tokenURL f durationSeconds sessionJSON) = Inr req \<and>
         client f req w = (Inr resp, w1) \<and>
         StatusCode resp = 200 \<and>
         Body resp = (body, None) \<and>
         json_Unmarshal lib body = (signinToken, None) \<and>
         signinToken \<noteq> '''' \<and>
         u = loginURL f signinToken)) \<and>
   (\<forall>u e w1. BuildConsoleURL lib f creds durationSeconds w = ((u, Some e), w1) \<longrightarrow> u = '''')"
  apply (intro conjI allI impI)
  subgoal by (auto simp add: BuildConsoleURL_def split: prod.splits option.splits sum.splits)
  subgoal by (auto simp add: BuildConsoleURL_def split: prod.splits option.splits sum.splits if_splits)
  subgoal by (auto simp add: BuildConsoleURL_def split: prod.splits option.splits sum.splits if_splits)
  done

lemma testLib_Marshal:
  "json_Marshal testLib (sessionData testCredentials) = (testSessionJSON, None)"
  by (simp add: testLib_def sessionData_def testCredentials_def testSessionJSON_def)

lemma testLib_NewRequest:
  "http_NewRequestWithContext testLib method url = Inr \<lparr>Method = method, URL = url\<rparr>"
  by (simp add: testLib_def)

lemma testFederationClient_Do:
  "client (testFederationClient statusCode responseBody) req n =
     (Inr \<lparr>StatusCode = statusCode, Body = (responseBody, None)\<rparr>, Suc n)"
  by (simp add: testFederationClient_def)

theorem BuildConsoleURL_failure_witness:
  \<open>(\<exists>e. BuildConsoleURL testLib (testFederationClient 403 ''forbidden'') testCredentials 3600 0 =
         (('''', Some e), 1)) \<and>
   (\<exists>e. BuildConsoleURL testLib (testFederationClient 200 ''{not-json}'') testCredentials 3600 0 =
         (('''', Some e), 1)) \<and>
   (\<exists>e. BuildConsoleURL testLib (testFederationClient 200 ''{"SigninToken":""}'') testCredentials 3600 0 =
         (('''', Some e), 1)) \<and>
   (\<exists>signinToken.
      json_Unmarshal testLib ''{"SigninToken":"token-123"}'' = (signinToken, None) \<and>
      signinToken \<noteq> '''' \<and>
      fst (fst (BuildConsoleURL testLib (testFederationClient 200 ''{"SigninToken":"token-123"}'')
                  testCredentials 3600 0)) =
        loginURL (testFederationClient 200 ''{"SigninToken":"token-123"}'') signinToken) \<and>
   fst (fst (BuildConsoleURL testLib failingFederationClient testCredentials 3600 0)) = ''''\<close>
proof -
  let ?req = "\<lambda>f. \<lparr>Method = ''GET'', URL = tokenURL f 3600 testSessionJSON\<rparr>"
  have forbidden:
    "json_Marshal testLib (sessionData testCredentials) = (testSessionJSON, None) \<and>
     http_NewRequestWithContext testLib ''GET''
       (tokenURL (testFederationClient 403 ''forbidden'') 3600 testSessionJSON) =
       Inr (?req (testFederationClient 403 ''forbidden'')) \<and>
     client (testFederationClient 403 ''forbidden'') (?req (testFederationClient 403 ''forbidden'')) 0 =
       (Inr \<lparr>StatusCode = 403, Body = (''forbidden'', None)\<rparr>, 1) \<and>
     (StatusCode \<lparr>StatusCode = 403, Body = (''forbidden'', None)\<rparr> \<noteq> 200 \<or>
      (\<exists>body. Body \<lparr>StatusCode = 403, Body = (''forbidden'', None)\<rparr> = (body, None) \<and>
         snd (json_Unmarshal testLib body) \<noteq> None) \<or>
      (\<exists>body. Body \<lparr>StatusCode = 403, Body = (''forbidden'', None)\<rparr> = (body, None) \<and>
         fst (json_Unmarshal testLib body) = ''''))"
    by (simp add: testLib_Marshal testLib_NewRequest testFederationClient_Do)
  have not_json:
    "json_Marshal testLib (sessionData testCredentials) = (testSessionJSON, None) \<and>
     http_NewRequestWithContext testLib ''GET''
       (tokenURL (testFederationClient 200 ''{not-json}'') 3600 testSessionJSON) =
       Inr (?req (testFederationClient 200 ''{not-json}'')) \<and>
     client (testFederationClient 200 ''{not-json}'') (?req (testFederationClient 200 ''{not-json}'')) 0 =
       (Inr \<lparr>StatusCode = 200, Body = (''{not-json}'', None)\<rparr>, 1) \<and>
     (StatusCode \<lparr>StatusCode = 200, Body = (''{not-json}'', None)\<rparr> \<noteq> 200 \<or>
      (\<exists>body. Body \<lparr>StatusCode = 200, Body = (''{not-json}'', None)\<rparr> = (body, None) \<and>
         snd (json_Unmarshal testLib body) \<noteq> None) \<or>
      (\<exists>body. Body \<lparr>StatusCode = 200, Body = (''{not-json}'', None)\<rparr> = (body, None) \<and>
         fst (json_Unmarshal testLib body) = ''''))"
    by (simp add: testLib_Marshal testLib_NewRequest testFederationClient_Do) (simp add: testLib_def)
  have empty_token:
    \<open>json_Marshal testLib (sessionData testCredentials) = (testSessionJSON, None) \<and>
     http_NewRequestWithContext testLib ''GET''
       (tokenURL (testFederationClient 200 ''{"SigninToken":""}'') 3600 testSessionJSON) =
       Inr (?req (testFederationClient 200 ''{"SigninToken":""}'')) \<and>
     client (testFederationClient 200 ''{"SigninToken":""}'')
       (?req (testFederationClient 200 ''{"SigninToken":""}'')) 0 =
       (Inr \<lparr>StatusCode = 200, Body = (''{"SigninToken":""}'', None)\<rparr>, 1) \<and>
     (StatusCode \<lparr>StatusCode = 200, Body = (''{"SigninToken":""}'', None)\<rparr> \<noteq> 200 \<or>
      (\<exists>body. Body \<lparr>StatusCode = 200, Body = (''{"SigninToken":""}'', None)\<rparr> = (body, None) \<and>
         snd (json_Unmarshal testLib body) \<noteq> None) \<or>
      (\<exists>body. Body \<lparr>StatusCode = 200, Body = (''{"SigninToken":""}'', None)\<rparr> = (body, None) \<and>
         fst (json_Unmarshal testLib body) = ''''))\<close>
    by (simp add: testLib_Marshal testLib_NewRequest testFederationClient_Do) (simp add: testLib_def)
  have success:
    \<open>BuildConsoleURL testLib (testFederationClient 200 ''{"SigninToken":"token-123"}'')
        testCredentials 3600 0 =
      ((fst (fst (BuildConsoleURL testLib (testFederationClient 200 ''{"SigninToken":"token-123"}'')
                    testCredentials 3600 0)), None), 1)\<close>
    by (simp add: BuildConsoleURL_def testLib_Marshal testLib_NewRequest testFederationClient_Do)
       (simp add: testLib_def)
  have network_error:
    "BuildConsoleURL testLib failingFederationClient testCredentials 3600 0 =
      ((fst (fst (BuildConsoleURL testLib failingFederationClient testCredentials 3600 0)),
        Some (wrapError ''failed to request signin token: network error''
                (errorString ''network error''))), 1)"
    by (simp add: BuildConsoleURL_def testLib_Marshal testLib_NewRequest
        failingFederationClient_def Errorf_w_def)
  note thm403 = BuildConsoleURL_failure
    [where lib = testLib and creds = testCredentials and durationSeconds = 3600 and w = 0
       and f = "testFederationClient 403 ''forbidden''"]
  note thm_not_json = BuildConsoleURL_failure
    [where lib = testLib and creds = testCredentials and durationSeconds = 3600 and w = 0
       and f = "testFederationClient 200 ''{not-json}''"]
  note thm_empty = BuildConsoleURL_failure
    [where lib = testLib and creds = testCredentials and durationSeconds = 3600 and w = 0
       and f = \<open>testFederationClient 200 ''{"SigninToken":""}''\<close>]
  note thm_success = BuildConsoleURL_failure
    [where lib = testLib and creds = testCredentials and durationSeconds = 3600 and w = 0
       and f = \<open>testFederationClient 200 ''{"SigninToken":"token-123"}''\<close>]
  note thm_network = BuildConsoleURL_failure
    [where lib = testLib and creds = testCredentials and durationSeconds = 3600 and w = 0
       and f = failingFederationClient]
  have a: "\<exists>e. BuildConsoleURL testLib (testFederationClient 403 ''forbidden'') testCredentials 3600 0 =
         (('''', Some e), 1)"
    by (rule thm403 [THEN conjunct1, rule_format, OF forbidden])
  have b: "\<exists>e. BuildConsoleURL testLib (testFederationClient 200 ''{not-json}'') testCredentials 3600 0 =
         (('''', Some e), 1)"
    by (rule thm_not_json [THEN conjunct1, rule_format, OF not_json])
  have c: \<open>\<exists>e. BuildConsoleURL testLib (testFederationClient 200 ''{"SigninToken":""}'')
              testCredentials 3600 0 = (('''', Some e), 1)\<close>
    by (rule thm_empty [THEN conjunct1, rule_format, OF empty_token])
  from thm_success [THEN conjunct2, THEN conjunct1, rule_format, OF success]
  have d: \<open>\<exists>signinToken.
      json_Unmarshal testLib ''{"SigninToken":"token-123"}'' = (signinToken, None) \<and>
      signinToken \<noteq> '''' \<and>
      fst (fst (BuildConsoleURL testLib (testFederationClient 200 ''{"SigninToken":"token-123"}'')
                  testCredentials 3600 0)) =
        loginURL (testFederationClient 200 ''{"SigninToken":"token-123"}'') signinToken\<close>
    by (auto simp add: testFederationClient_Do)
  have e: "fst (fst (BuildConsoleURL testLib failingFederationClient testCredentials 3600 0)) = ''''"
    by (rule thm_network [THEN conjunct2, THEN conjunct2, rule_format, OF network_error])
  from a b c d e show ?thesis by blast
qed

section \<open>The workflow: paths and results\<close>


lemma Fprint_simps [simp]:
  "trace (Fprint h msg s) = trace s @ [WriteCall h msg]"
  "world (Fprint h msg s) = world s"
  by (simp_all add: Fprint_def)

lemma Fprintln_simps [simp]:
  "trace (Fprintln h msg s) = trace s @ [WriteCall h (msg @ [CHR 0x0A])]"
  "world (Fprintln h msg s) = world s"
  by (simp_all add: Fprintln_def)







lemmas run_defs =
  runWorkflow_def runWorkflow_authenticated_def invoke_def Fprint_def Fprintln_def
  testDeps_def mockService_def Errorf_w_def initial_def sessionDuration_const_def






lemma run_tokenError:
  "runWorkflow ''dev-profile'' tokenErrorDeps initial =
     (Some (wrapError ''failed to get temporary credentials: token request failed''
              (errorString ''token request failed'')),
      \<lparr>world = 1,
       trace =
         [GetCallerIdentityCall ''dev-profile'' (testIdentity, None),
          WriteCall ''stdout'' (''Authenticated as: arn:aws:iam::123456789012:user/test'' @ [CHR 0x0A]),
          RetrieveCredentialsCall ''dev-profile'' (longLivedCredentials, None),
          WriteCall ''stdout''
            (''No session token found, requesting temporary credentials...'' @ [CHR 0x0A]),
          GetSessionTokenCall ''dev-profile'' 43200
            (noCredentials, Some (errorString ''token request failed''))]\<rparr>)"
  by (simp add: run_defs tokenErrorDeps_def testIdentity_def longLivedCredentials_def)







end
